theory Spec2Isabelle
  imports Complex_Main "HOL-Library.Sublist" "HOL-Library.AList"
begin

section \<open>Strings\<close>

text \<open>
  A Python \<open>str\<close> is modelled as a \<open>string\<close> whose characters are the code points
  below 256. \<open>str.lower\<close> and \<open>str.upper\<close> act character by character on that range:
  the ASCII letters and the accented Latin-1 letters (192..222 and 224..254, without the
  multiplication and division signs 215 and 247) move by 32. The three lower-case
  characters 181, 223 and 255, whose upper-case forms are not one character of the 8-bit
  range, are left alone by \<open>upper\<close>; their upper-case forms contain neither
  \<open>N\<close> nor \<open>O\<close>, and the one use of \<open>upper\<close> in the source is the test for
  \<open>NO\<close> in the result, which is not affected.
\<close>

definition lower_char :: "char \<Rightarrow> char" where
  "lower_char c =
     (let n = (of_char c :: nat)
      in if (65 \<le> n \<and> n \<le> 90) \<or> (192 \<le> n \<and> n \<le> 222 \<and> n \<noteq> 215)
         then char_of (n + 32) else c)"

definition upper_char :: "char \<Rightarrow> char" where
  "upper_char c =
     (let n = (of_char c :: nat)
      in if (97 \<le> n \<and> n \<le> 122) \<or> (224 \<le> n \<and> n \<le> 254 \<and> n \<noteq> 247)
         then char_of (n - 32) else c)"

definition lower :: "string \<Rightarrow> string" where
  "lower s = map lower_char s"

definition upper :: "string \<Rightarrow> string" where
  "upper s = map upper_char s"

text \<open>\<open>sub in text\<close> on strings: \<open>sub\<close> occurs in \<open>text\<close> as a contiguous block.\<close>

fun str_in :: "string \<Rightarrow> string \<Rightarrow> bool" where
  "str_in sub [] = (sub = [])"
| "str_in sub (c # cs) = (prefix sub (c # cs) \<or> str_in sub cs)"

text \<open>\<open>s.replace(old, new)\<close> for a single character \<open>old\<close>.\<close>

definition replace_char :: "char \<Rightarrow> char \<Rightarrow> string \<Rightarrow> string" where
  "replace_char old new s = map (\<lambda>c. if c = old then new else c) s"


section \<open>checklists.py\<close>

datatype Severity = CRITICAL | HIGH | MEDIUM | LOW

fun severity_value :: "Severity \<Rightarrow> string" where
  "severity_value CRITICAL = ''critical''"
| "severity_value HIGH = ''high''"
| "severity_value MEDIUM = ''medium''"
| "severity_value LOW = ''low''"

record ChecklistItem =
  key :: string
  description :: string
  severity :: Severity
  example_question :: string

definition mk_item :: "string \<Rightarrow> string \<Rightarrow> Severity \<Rightarrow> string \<Rightarrow> ChecklistItem" where
  "mk_item k d s q = \<lparr>key = k, description = d, severity = s, example_question = q\<rparr>"

text \<open>
  A Python \<open>dict\<close> keeps its keys in insertion order, so the trigger table is an
  association list in the order of the source.
\<close>

definition LOAN_TYPE_TRIGGERS :: "(string \<times> string list) list" where
  "LOAN_TYPE_TRIGGERS =
    [(''FHA'', [''fha'', ''federal housing'', ''hud'', ''mip'', ''upfront mip'', ''203b'', ''203k'']),
     (''VA'', [''va'', ''veteran'', ''military'', ''certificate of eligibility'', ''coe'',
               ''funding fee'']),
     (''USDA'', [''usda'', ''rural development'', ''rural housing'', ''guaranteed rural'']),
     (''Conventional'', [''conventional'', ''fannie mae'', ''freddie mac'', ''conforming'', ''gse'']),
     (''Jumbo'', [''jumbo'', ''non-conforming'', ''high balance'', ''super conforming'']),
     (''Reverse'', [''reverse mortgage'', ''hecm'', ''home equity conversion''])]"

record LoanClassification =
  primary_type :: string
  all_detected :: "string list"
  confidence :: real

text \<open>\<open>any(trigger in text_lower for trigger in triggers)\<close>\<close>

definition any_trigger :: "string list \<Rightarrow> string \<Rightarrow> bool" where
  "any_trigger triggers text_lower = list_ex (\<lambda>trigger. str_in trigger text_lower) triggers"

text \<open>The loop of \<open>detect_loan_type\<close> over the items of a trigger table.\<close>

fun detect_loop :: "(string \<times> string list) list \<Rightarrow> string \<Rightarrow> string list \<Rightarrow> string list" where
  "detect_loop [] text_lower detected = detected"
| "detect_loop ((loan_type, triggers) # rest) text_lower detected =
     detect_loop rest text_lower
       (if any_trigger triggers text_lower then detected @ [loan_type] else detected)"

definition detect_loan_type :: "string \<Rightarrow> LoanClassification" where
  "detect_loan_type text =
     (let text_lower = lower text;
          detected = detect_loop LOAN_TYPE_TRIGGERS text_lower []
      in \<lparr>primary_type = (case detected of [] \<Rightarrow> ''Conventional'' | d # _ \<Rightarrow> d),
          all_detected = detected,
          confidence = (if detected \<noteq> [] then 0.9 else 0.5)\<rparr>)"


section \<open>agents.py: scoring\<close>

text \<open>
  A gap is the dictionary with the five keys that \<open>check_against_checklist\<close> builds;
  its severity is the string value of the item's severity. Scores are Python floats;
  they are modelled as real numbers, each decimal literal standing for its decimal
  value, so rounding is outside the model.
\<close>

record Gap =
  g_category :: string
  g_key :: string
  g_description :: string
  g_severity :: string
  g_question :: string

text \<open>The \<open>for gap in gaps\<close> loop of \<open>calculate_confidence\<close>, on the running score.\<close>

fun deduct :: "real \<Rightarrow> Gap list \<Rightarrow> real" where
  "deduct rule_score [] = rule_score"
| "deduct rule_score (gap # gaps) =
     deduct (if g_severity gap = ''critical'' then rule_score - 0.10
             else if g_severity gap = ''high'' then rule_score - 0.05
             else if g_severity gap = ''medium'' then rule_score - 0.02
             else rule_score) gaps"

definition calculate_confidence :: "Gap list \<Rightarrow> string \<Rightarrow> real" where
  "calculate_confidence gaps llm_critique =
     (let rule_score = max 0.0 (deduct 1.0 gaps);
          critique_lower = lower llm_critique;
          llm_penalty =
            (if str_in ''catastrophic'' critique_lower \<or> str_in ''critical failure'' critique_lower
             then 0.20
             else if str_in ''major gap'' critique_lower \<or> str_in ''serious'' critique_lower
             then 0.10
             else 0.0);
          final_score = rule_score - llm_penalty
      in max 0.0 (min 1.0 final_score))"

definition determine_outcome :: "real \<Rightarrow> string" where
  "determine_outcome c =
     (if c \<ge> 0.95 then ''complete''
      else if c \<ge> 0.70 then ''partial''
      else ''clarify'')"


text \<open>
  \<open>xs[:n]\<close> for a Python integer \<open>n\<close>: a negative \<open>n\<close> counts from the end of the list.
\<close>

definition slice_to :: "int \<Rightarrow> 'a list \<Rightarrow> 'a list" where
  "slice_to n xs = (if 0 \<le> n then take (nat n) xs else take (length xs - nat (- n)) xs)"

text \<open>\<open>{"critical": 0, "high": 1, "medium": 2, "low": 3}.get(g["severity"], 4)\<close>\<close>

definition severity_rank :: "Gap \<Rightarrow> nat" where
  "severity_rank g =
     (case map_of [(''critical'', 0), (''high'', 1), (''medium'', 2), (''low'', 3)] (g_severity g) of
        None \<Rightarrow> 4 | Some r \<Rightarrow> r)"

record Question =
  q_question :: string
  q_severity :: string
  q_category :: string

definition to_question :: "Gap \<Rightarrow> Question" where
  "to_question gap =
     \<lparr>q_question = g_question gap, q_severity = g_severity gap, q_category = g_category gap\<rparr>"

text \<open>
  Python's \<open>sorted\<close> is a stable sort by the key; \<open>sort_key\<close> is the stable insertion
  sort of the list library, and a stable sort by a key has one result only.
\<close>

definition generate_questions :: "Gap list \<Rightarrow> int \<Rightarrow> Question list" where
  "generate_questions gaps max_questions =
     (let sorted_gaps = sort_key severity_rank gaps
      in map to_question (slice_to max_questions sorted_gaps))"

definition generate_questions_default :: "Gap list \<Rightarrow> Question list" where
  "generate_questions_default gaps = generate_questions gaps 5"


section \<open>checklists.py: the checklist table and its copies\<close>

text \<open>
  \<open>get_checklist_for_loan_type\<close> copies the module-level dictionary and stores into the
  copy, so the objects are kept in an explicit store: an address is a position in the
  list of objects, a dictionary object maps its keys (in insertion order) to the addresses
  of list objects, and allocation appends.
\<close>

datatype obj = DictObj "(string \<times> nat) list" | ListObj "ChecklistItem list"

type_synonym heap = "obj list"

definition loan_product_items :: "ChecklistItem list" where
  "loan_product_items =
    [mk_item ''loan_type'' ''Loan type clearly specified'' CRITICAL
       ''What type of loan is this? (FHA, VA, Conventional, etc.)'',
     mk_item ''loan_amount'' ''Loan amount or range specified'' CRITICAL
       ''What is the expected loan amount range?'',
     mk_item ''interest_rate_type'' ''Fixed or adjustable rate specified'' HIGH
       ''Is this a fixed-rate or adjustable-rate mortgage?'',
     mk_item ''loan_term'' ''Loan term specified (15, 20, 30 years)'' HIGH
       ''What loan terms should be supported?'',
     mk_item ''ltv_limits'' ''LTV limits defined'' HIGH
       ''What are the maximum LTV ratios for this product?'']"

definition borrower_items :: "ChecklistItem list" where
  "borrower_items =
    [mk_item ''dti_thresholds'' ''DTI thresholds defined'' CRITICAL
       ''What are the front-end and back-end DTI limits?'',
     mk_item ''credit_score'' ''Minimum credit score requirements'' CRITICAL
       ''What is the minimum credit score required?'',
     mk_item ''income_verification'' ''Income verification method specified'' HIGH
       ''How should income be verified? (W2, tax returns, bank statements)'',
     mk_item ''employment_history'' ''Employment history requirements'' MEDIUM
       ''What employment history is required?'',
     mk_item ''reserves'' ''Reserve requirements specified'' MEDIUM
       ''How many months of reserves are required?'']"

definition property_items :: "ChecklistItem list" where
  "property_items =
    [mk_item ''property_types'' ''Eligible property types listed'' HIGH
       ''What property types are eligible? (SFR, Condo, Multi-unit)'',
     mk_item ''occupancy'' ''Occupancy type specified'' HIGH
       ''What occupancy types are allowed? (Primary, Second home, Investment)'',
     mk_item ''appraisal'' ''Appraisal requirements defined'' HIGH
       ''What are the appraisal requirements?'']"

definition compliance_items :: "ChecklistItem list" where
  "compliance_items =
    [mk_item ''trid_timing'' ''TRID disclosure timing requirements'' CRITICAL
       ''How will TRID timing requirements be enforced?'',
     mk_item ''hmda_fields'' ''HMDA data collection requirements'' CRITICAL
       ''Which HMDA fields need to be collected?'',
     mk_item ''fair_lending'' ''Fair lending compliance approach'' CRITICAL
       ''How will fair lending compliance be ensured?'',
     mk_item ''state_specific'' ''State-specific requirements noted'' HIGH
       ''Which states will this product be offered in? Any state-specific rules?'']"

definition fha_specific_items :: "ChecklistItem list" where
  "fha_specific_items =
    [mk_item ''mip_calculation'' ''MIP calculation rules'' CRITICAL
       ''How should upfront and annual MIP be calculated?'',
     mk_item ''fha_limits'' ''FHA loan limits by county'' HIGH
       ''How will FHA loan limits be determined?'']"

definition va_specific_items :: "ChecklistItem list" where
  "va_specific_items =
    [mk_item ''entitlement'' ''VA entitlement verification'' CRITICAL
       ''How will VA entitlement be verified?'',
     mk_item ''funding_fee'' ''VA funding fee calculation'' CRITICAL
       ''How should the VA funding fee be calculated?'']"

text \<open>
  The store after the module is loaded: the four item lists of the \<open>CHECKLIST\<close> literal,
  then the dictionary itself, which the global name \<open>CHECKLIST\<close> refers to.
\<close>

definition module_heap :: heap where
  "module_heap =
    [ListObj loan_product_items, ListObj borrower_items, ListObj property_items,
     ListObj compliance_items,
     DictObj [(''loan_product'', 0), (''borrower'', 1), (''property'', 2), (''compliance'', 3)]]"

definition CHECKLIST :: nat where
  "CHECKLIST = 4"

datatype error = KeyError string | LLMError | HeapError

definition alloc :: "obj \<Rightarrow> heap \<Rightarrow> nat \<times> heap" where
  "alloc ob h = (length h, h @ [ob])"

text \<open>Reading a dictionary object; a dangling or ill-typed address is a \<open>HeapError\<close>.\<close>

definition get_dict :: "nat \<Rightarrow> heap \<Rightarrow> error + (string \<times> nat) list" where
  "get_dict a h =
     (if a < length h then (case h ! a of DictObj d \<Rightarrow> Inr d | ListObj _ \<Rightarrow> Inl HeapError)
      else Inl HeapError)"

definition get_list :: "nat \<Rightarrow> heap \<Rightarrow> error + ChecklistItem list" where
  "get_list a h =
     (if a < length h then (case h ! a of ListObj l \<Rightarrow> Inr l | DictObj _ \<Rightarrow> Inl HeapError)
      else Inl HeapError)"

text \<open>\<open>d.copy()\<close>: a new dictionary object with the same keys and the same list addresses.\<close>

definition dict_copy :: "nat \<Rightarrow> heap \<Rightarrow> error + nat \<times> heap" where
  "dict_copy a h = (case get_dict a h of Inl e \<Rightarrow> Inl e | Inr d \<Rightarrow> Inr (alloc (DictObj d) h))"

text \<open>\<open>d[k] = v\<close>: the object at address \<open>a\<close> is overwritten in place.\<close>

definition dict_setitem :: "nat \<Rightarrow> string \<Rightarrow> nat \<Rightarrow> heap \<Rightarrow> error + heap" where
  "dict_setitem a k v h =
     (case get_dict a h of Inl e \<Rightarrow> Inl e
      | Inr d \<Rightarrow> Inr (h[a := DictObj (AList.update k v d)]))"

definition get_checklist_for_loan_type :: "string \<Rightarrow> heap \<Rightarrow> error + nat \<times> heap" where
  "get_checklist_for_loan_type loan_type h =
     (case dict_copy CHECKLIST h of Inl e \<Rightarrow> Inl e
      | Inr (base, h1) \<Rightarrow>
          if loan_type = ''FHA'' then
            (let (l, h2) = alloc (ListObj fha_specific_items) h1
             in case dict_setitem base ''fha_specific'' l h2 of Inl e \<Rightarrow> Inl e
                | Inr h3 \<Rightarrow> Inr (base, h3))
          else if loan_type = ''VA'' then
            (let (l, h2) = alloc (ListObj va_specific_items) h1
             in case dict_setitem base ''va_specific'' l h2 of Inl e \<Rightarrow> Inl e
                | Inr h3 \<Rightarrow> Inr (base, h3))
          else Inr (base, h1))"

text \<open>\<open>d.items()\<close> with every list read through the store.\<close>

fun read_entries :: "(string \<times> nat) list \<Rightarrow> heap \<Rightarrow> error + (string \<times> ChecklistItem list) list" where
  "read_entries [] h = Inr []"
| "read_entries ((k, a) # rest) h =
     (case get_list a h of Inl e \<Rightarrow> Inl e
      | Inr l \<Rightarrow> (case read_entries rest h of Inl e \<Rightarrow> Inl e | Inr es \<Rightarrow> Inr ((k, l) # es)))"

definition dict_items :: "nat \<Rightarrow> heap \<Rightarrow> error + (string \<times> ChecklistItem list) list" where
  "dict_items a h = (case get_dict a h of Inl e \<Rightarrow> Inl e | Inr d \<Rightarrow> read_entries d h)"

text \<open>A sequence of calls, one after the other on the same store.\<close>

fun calls :: "string list \<Rightarrow> heap \<Rightarrow> error + heap" where
  "calls [] h = Inr h"
| "calls (loan_type # rest) h =
     (case get_checklist_for_loan_type loan_type h of Inl e \<Rightarrow> Inl e
      | Inr (_, h') \<Rightarrow> calls rest h')"

text \<open>The categories of the \<open>CHECKLIST\<close> literal and the entry each loan type adds.\<close>

definition base_categories :: "(string \<times> ChecklistItem list) list" where
  "base_categories =
    [(''loan_product'', loan_product_items), (''borrower'', borrower_items),
     (''property'', property_items), (''compliance'', compliance_items)]"

definition extension :: "string \<Rightarrow> (string \<times> ChecklistItem list) list" where
  "extension loan_type =
     (if loan_type = ''FHA'' then [(''fha_specific'', fha_specific_items)]
      else if loan_type = ''VA'' then [(''va_specific'', va_specific_items)]
      else [])"


section \<open>agents.py: the two agents\<close>

text \<open>
  The language model is outside the program. A call either raises (\<open>Inl LLMError\<close>) or
  returns the content of the reply. For the checklist query the reply is cleaned and
  handed to \<open>json.loads\<close>; the call, the cleaning and the parse are one answer here:
  \<open>Raised\<close> when any of them raises, else the parsed value, which is a JSON object
  (a dictionary from keys to values) or any other JSON value. Of a value inside the
  object only one thing is used: whether it is a string, and which.
\<close>

datatype jvalue = JString string | JOther

datatype payload = JObject "string \<Rightarrow> jvalue option" | JNonObject

datatype response = Raised | Parsed payload

record backend =
  author_chain :: "string \<Rightarrow> string \<Rightarrow> error + string"
  critic_chain :: "string list \<Rightarrow> string \<Rightarrow> error + string"
  check_call :: "string \<times> string \<Rightarrow> response"

record AuthorOutput =
  ao_loan_classification :: LoanClassification
  ao_structured_requirements :: string
  ao_raw_input :: string

record CriticOutput =
  co_checklist_gaps :: "Gap list"
  co_llm_critique :: string
  co_loan_type :: string

definition ReqGuardAuthor_extract :: "backend \<Rightarrow> string \<Rightarrow> error + AuthorOutput" where
  "ReqGuardAuthor_extract llm raw_requirements =
     (let loan_info = detect_loan_type raw_requirements
      in case author_chain llm (primary_type loan_info) raw_requirements of
           Inl e \<Rightarrow> Inl e
         | Inr content \<Rightarrow>
             Inr \<lparr>ao_loan_classification = loan_info,
                  ao_structured_requirements = content,
                  ao_raw_input = raw_requirements\<rparr>)"

definition critique :: "backend \<Rightarrow> AuthorOutput \<Rightarrow> Gap list \<Rightarrow> error + CriticOutput" where
  "critique llm author_out gaps =
     (case critic_chain llm (map g_description gaps) (ao_structured_requirements author_out) of
        Inl e \<Rightarrow> Inl e
      | Inr content \<Rightarrow>
          Inr \<lparr>co_checklist_gaps = gaps,
               co_llm_critique = content,
               co_loan_type = primary_type (ao_loan_classification author_out)\<rparr>)"

definition make_gap :: "string \<Rightarrow> ChecklistItem \<Rightarrow> Gap" where
  "make_gap category item =
     \<lparr>g_category = category, g_key = key item, g_description = description item,
      g_severity = severity_value (severity item), g_question = example_question item\<rparr>"

text \<open>
  The loop in the \<open>try\<close> block. \<open>results.get\<close> raises when the parsed value is not a
  dictionary, and \<open>.upper()\<close> raises when the value found is not a string; the gaps
  appended before that stay in the list, so the loop returns the list together with
  whether it raised.
\<close>

fun llm_items :: "payload \<Rightarrow> string \<Rightarrow> ChecklistItem list \<Rightarrow> Gap list \<Rightarrow> Gap list \<times> bool" where
  "llm_items results category [] gaps = (gaps, False)"
| "llm_items JNonObject category (item # items) gaps = (gaps, True)"
| "llm_items (JObject d) category (item # items) gaps =
     (case (case d (key item) of None \<Rightarrow> JString ''NO'' | Some v \<Rightarrow> v) of
        JOther \<Rightarrow> (gaps, True)
      | JString v \<Rightarrow>
          (let status = upper v
           in if str_in ''NO'' status
              then llm_items (JObject d) category items (gaps @ [make_gap category item])
              else llm_items (JObject d) category items gaps))"

text \<open>The loop in the \<open>except\<close> block.\<close>

fun keyword_items :: "string \<Rightarrow> string \<Rightarrow> ChecklistItem list \<Rightarrow> Gap list \<Rightarrow> Gap list" where
  "keyword_items requirements_text category [] gaps = gaps"
| "keyword_items requirements_text category (item # items) gaps =
     keyword_items requirements_text category items
       (if \<not> str_in (replace_char (CHR ''_'') (CHR '' '') (key item)) (lower requirements_text)
        then gaps @ [make_gap category item] else gaps)"

text \<open>\<open>sep.join(xs)\<close>\<close>

fun join :: "string \<Rightarrow> string list \<Rightarrow> string" where
  "join sep [] = []"
| "join sep [x] = x"
| "join sep (x # y # ys) = x @ sep @ join sep (y # ys)"

text \<open>
  The prompt of the checklist query is kept as the two texts the source puts into it:
  the first 4000 characters of the requirements and the list of the items.
\<close>

definition build_prompt :: "string \<Rightarrow> ChecklistItem list \<Rightarrow> string \<times> string" where
  "build_prompt requirements_text items =
     (let checklist_items_text =
            join [CHR 0x0A] (map (\<lambda>item. ''- '' @ key item @ '': '' @ description item) items)
      in (take 4000 requirements_text, checklist_items_text))"

text \<open>The loop over \<open>checklist.items()\<close>.\<close>

fun check_categories ::
  "backend \<Rightarrow> string \<Rightarrow> (string \<times> ChecklistItem list) list \<Rightarrow> Gap list \<Rightarrow> Gap list" where
  "check_categories llm requirements_text [] gaps = gaps"
| "check_categories llm requirements_text ((category, items) # rest) gaps =
     (let prompt = build_prompt requirements_text items
      in check_categories llm requirements_text rest
           (case check_call llm prompt of
              Raised \<Rightarrow> keyword_items requirements_text category items gaps
            | Parsed results \<Rightarrow>
                (case llm_items results category items gaps of
                   (gaps', True) \<Rightarrow> keyword_items requirements_text category items gaps'
                 | (gaps', False) \<Rightarrow> gaps')))"

definition check_against_checklist ::
  "backend \<Rightarrow> AuthorOutput \<Rightarrow> heap \<Rightarrow> error + Gap list \<times> heap" where
  "check_against_checklist llm author_out h =
     (let loan_type = primary_type (ao_loan_classification author_out)
      in case get_checklist_for_loan_type loan_type h of Inl e \<Rightarrow> Inl e
         | Inr (checklist, h') \<Rightarrow>
             (let requirements_text = ao_structured_requirements author_out
              in case dict_items checklist h' of Inl e \<Rightarrow> Inl e
                 | Inr entries \<Rightarrow> Inr (check_categories llm requirements_text entries [], h')))"



section \<open>main.py: the workflow\<close>

text \<open>
  The state is a dictionary in which any key may be absent, so every field is an option.
  A node returns the keys it writes, and the engine stores them over the old values.
\<close>

record ReqGuardState =
  raw_requirements :: "string option"
  author_output :: "AuthorOutput option"
  critic_output :: "CriticOutput option"
  st_confidence :: "real option"
  outcome :: "string option"
  questions :: "Question list option"
  human_feedback :: "string option"
  iteration :: "int option"
  approved :: "bool option"

definition no_keys :: ReqGuardState where
  "no_keys =
     \<lparr>raw_requirements = None, author_output = None, critic_output = None,
      st_confidence = None, outcome = None, questions = None, human_feedback = None,
      iteration = None, approved = None\<rparr>"

definition override :: "'a option \<Rightarrow> 'a option \<Rightarrow> 'a option" where
  "override old new = (case new of None \<Rightarrow> old | Some v \<Rightarrow> Some v)"

definition merge :: "ReqGuardState \<Rightarrow> ReqGuardState \<Rightarrow> ReqGuardState" where
  "merge s u =
     \<lparr>raw_requirements = override (raw_requirements s) (raw_requirements u),
      author_output = override (author_output s) (author_output u),
      critic_output = override (critic_output s) (critic_output u),
      st_confidence = override (st_confidence s) (st_confidence u),
      outcome = override (outcome s) (outcome u),
      questions = override (questions s) (questions u),
      human_feedback = override (human_feedback s) (human_feedback u),
      iteration = override (iteration s) (iteration u),
      approved = override (approved s) (approved u)\<rparr>"

text \<open>
  The module-level objects \<open>author\<close> and \<open>critic\<close>: the three methods the nodes call.
  A method may raise, which the nodes do not catch.
\<close>

record agents =
  ag_extract :: "string \<Rightarrow> error + AuthorOutput"
  ag_check_against_checklist :: "AuthorOutput \<Rightarrow> error + Gap list"
  ag_critique :: "AuthorOutput \<Rightarrow> Gap list \<Rightarrow> error + CriticOutput"

text \<open>
  The two objects built from one language model, on the store of the loaded module.
  The objects a call of the checker allocates are not reachable after it returns.
\<close>

definition reqguard_agents :: "backend \<Rightarrow> agents" where
  "reqguard_agents llm =
     \<lparr>ag_extract = ReqGuardAuthor_extract llm,
      ag_check_against_checklist =
        (\<lambda>author_out. case check_against_checklist llm author_out module_heap of
                         Inl e \<Rightarrow> Inl e | Inr (gaps, _) \<Rightarrow> Inr gaps),
      ag_critique = critique llm\<rparr>"

definition author_node :: "agents \<Rightarrow> ReqGuardState \<Rightarrow> error + ReqGuardState" where
  "author_node ag state =
     (case raw_requirements state of
        None \<Rightarrow> Inl (KeyError ''raw_requirements'')
      | Some raw \<Rightarrow>
          (case ag_extract ag raw of Inl e \<Rightarrow> Inl e
           | Inr result \<Rightarrow> Inr (no_keys\<lparr>author_output := Some result\<rparr>)))"

text \<open>\<open>state.get("iteration", 0)\<close>\<close>

definition get_iteration :: "ReqGuardState \<Rightarrow> int" where
  "get_iteration state = (case iteration state of None \<Rightarrow> 0 | Some i \<Rightarrow> i)"

definition critic_node :: "agents \<Rightarrow> ReqGuardState \<Rightarrow> error + ReqGuardState" where
  "critic_node ag state =
     (case author_output state of
        None \<Rightarrow> Inl (KeyError ''author_output'')
      | Some author_out \<Rightarrow>
          (case ag_check_against_checklist ag author_out of Inl e \<Rightarrow> Inl e
           | Inr gaps \<Rightarrow>
               (case ag_critique ag author_out gaps of Inl e \<Rightarrow> Inl e
                | Inr crit \<Rightarrow>
                    (let conf = calculate_confidence gaps (co_llm_critique crit);
                         outc = determine_outcome conf;
                         qs = generate_questions_default gaps
                     in Inr (no_keys\<lparr>critic_output := Some crit,
                                     st_confidence := Some conf,
                                     outcome := Some outc,
                                     questions := Some qs,
                                     iteration := Some (get_iteration state + 1)\<rparr>)))))"

definition gate_node :: "ReqGuardState \<Rightarrow> ReqGuardState" where
  "gate_node state = no_keys"

text \<open>\<open>state.get("approved", False)\<close> as a condition: an absent key counts as false.\<close>

definition is_approved :: "ReqGuardState \<Rightarrow> bool" where
  "is_approved state = (case approved state of None \<Rightarrow> False | Some b \<Rightarrow> b)"

definition should_continue :: "ReqGuardState \<Rightarrow> string" where
  "should_continue state =
     (if is_approved state then ''end''
      else if get_iteration state \<ge> 3 then ''escalate''
      else (let outc = (case outcome state of None \<Rightarrow> ''clarify'' | Some v \<Rightarrow> v)
            in if outc = ''complete'' then ''end''
               else if outc = ''partial'' then ''gate''
               else ''gate''))"

datatype node = Author | Critic | Gate | END

text \<open>The two tables of conditional edges and the router of the gate.\<close>

definition critic_edges :: "(string \<times> node) list" where
  "critic_edges = [(''gate'', Gate), (''end'', END), (''escalate'', END)]"

definition gate_route :: "ReqGuardState \<Rightarrow> string" where
  "gate_route s = (if is_approved s then ''end'' else ''author'')"

definition gate_edges :: "(string \<times> node) list" where
  "gate_edges = [(''author'', Author), (''end'', END)]"

definition follow :: "(string \<times> node) list \<Rightarrow> string \<Rightarrow> ReqGuardState \<Rightarrow> error + node \<times> ReqGuardState" where
  "follow edges label s =
     (case map_of edges label of None \<Rightarrow> Inl (KeyError label) | Some n \<Rightarrow> Inr (n, s))"

text \<open>
  One step of the graph: the node runs, its writes are stored, and the edge out of it is
  taken. \<open>author\<close> has the one edge to \<open>critic\<close>; \<open>END\<close> has no node to run.
\<close>

fun step :: "agents \<Rightarrow> node \<times> ReqGuardState \<Rightarrow> error + node \<times> ReqGuardState" where
  "step ag (Author, s) =
     (case author_node ag s of Inl e \<Rightarrow> Inl e | Inr u \<Rightarrow> Inr (Critic, merge s u))"
| "step ag (Critic, s) =
     (case critic_node ag s of Inl e \<Rightarrow> Inl e
      | Inr u \<Rightarrow> (let s' = merge s u in follow critic_edges (should_continue s') s'))"
| "step ag (Gate, s) =
     (let s' = merge s (gate_node s) in follow gate_edges (gate_route s') s')"
| "step ag (END, s) = Inr (END, s)"


definition approve_input :: "string \<Rightarrow> ReqGuardState" where
  "approve_input feedback = no_keys\<lparr>approved := Some True, human_feedback := Some feedback\<rparr>"

definition reject_input :: "ReqGuardState \<Rightarrow> string \<Rightarrow> ReqGuardState" where
  "reject_input values feedback =
     (let updated_requirements =
            (case raw_requirements values of None \<Rightarrow> [] | Some r \<Rightarrow> r)
            @ [CHR 0x0A, CHR 0x0A] @ ''Additional context: '' @ feedback
      in no_keys\<lparr>raw_requirements := Some updated_requirements, approved := Some False\<rparr>)"

text \<open>
  The life of one thread: the engine runs the node that is next, with the answers the
  agents give at that moment, or the reviewer's decision is written into the state of
  the suspended thread.
\<close>

datatype decision = Approve string | Reject string

fun decide :: "decision \<Rightarrow> ReqGuardState \<Rightarrow> ReqGuardState" where
  "decide (Approve feedback) s = merge s (approve_input feedback)"
| "decide (Reject feedback) s = merge s (reject_input s feedback)"





section \<open>main.py: threads and their persisted state\<close>

type_synonym store = "string \<Rightarrow> (node \<times> ReqGuardState) option"

text \<open>
  Modelled from the spec: the checkpoint store of the compiled workflow \<open>app\<close> and
  \<open>app.get_state\<close> belong to the graph library, which is not part of the repository.
  Following section 6 of the specification, the store keeps for each thread identifier
  the state and the node that is next (get by thread identifier and upsert); the values
  read for an unseen thread are the empty dictionary, for which \<open>reject_and_refine\<close>
  has its default.
\<close>

definition get_state :: "store \<Rightarrow> string \<Rightarrow> ReqGuardState" where
  "get_state st thread_id = (case st thread_id of None \<Rightarrow> no_keys | Some (n, v) \<Rightarrow> v)"

fun node_rank :: "node \<Rightarrow> nat" where
  "node_rank Gate = 3"
| "node_rank Author = 2"
| "node_rank Critic = 1"
| "node_rank END = 0"

text \<open>
  Modelled from the spec: the loop of the graph library that runs a thread, absent from
  the repository. Nodes are run one after the other along their edges until the node
  that is next is \<open>gate\<close>, before which the thread is suspended, or the terminal node
  (section 4.7, with \<open>interrupt_before\<close> as \<open>main.py\<close> sets it).
\<close>

function run :: "agents \<Rightarrow> node \<times> ReqGuardState \<Rightarrow> error + node \<times> ReqGuardState" where
  "run ag c =
     (case step ag c of Inl e \<Rightarrow> Inl e
      | Inr (n', s') \<Rightarrow> if n' = Gate \<or> n' = END then Inr (n', s') else run ag (n', s'))"
  by pat_completeness auto
termination
proof (relation "measure (\<lambda>(ag, c). node_rank (fst c))")
  show "wf (measure (\<lambda>(ag, c). node_rank (fst c)))" by simp
next
  fix ag :: agents and c :: "node \<times> ReqGuardState" and x2 :: "node \<times> ReqGuardState"
    and x y
  assume st: "step ag c = Inr x2" and x2: "(x, y) = x2" and ng: "\<not> (x = Gate \<or> x = END)"
  obtain n s where c: "c = (n, s)" by (cases c)
  from st x2 ng c have "node_rank x < node_rank n"
    by (cases n)
       (auto simp: follow_def critic_edges_def gate_edges_def Let_def
             split: sum.splits option.splits if_splits)
  then show "((ag, x, y), (ag, c)) \<in> measure (\<lambda>(ag, c). node_rank (fst c))"
    using c by simp
qed

declare run.simps [simp del]

text \<open>
  Modelled from the spec: \<open>app.invoke\<close> of the graph library, absent from the
  repository. The input is written over the persisted values of the thread (none for
  an unseen thread, which starts at \<open>author\<close>), the thread is run, and its state and
  next node are stored under the thread identifier (sections 4.7 and 6). When a node
  raises, the error goes to the caller and nothing is said about the store.
\<close>

definition invoke ::
  "agents \<Rightarrow> ReqGuardState \<Rightarrow> string \<Rightarrow> store \<Rightarrow> error + ReqGuardState \<times> store" where
  "invoke ag input thread_id st =
     (let (n, v) = (case st thread_id of None \<Rightarrow> (Author, no_keys) | Some cp \<Rightarrow> cp)
      in case run ag (n, merge v input) of Inl e \<Rightarrow> Inl e
         | Inr (n', s') \<Rightarrow> Inr (s', st(thread_id \<mapsto> (n', s'))))"

definition approve_and_continue ::
  "agents \<Rightarrow> string \<Rightarrow> string \<Rightarrow> store \<Rightarrow> error + ReqGuardState \<times> store" where
  "approve_and_continue ag thread_id feedback st =
     invoke ag (approve_input feedback) thread_id st"

definition reject_and_refine ::
  "agents \<Rightarrow> string \<Rightarrow> string \<Rightarrow> store \<Rightarrow> error + ReqGuardState \<times> store" where
  "reject_and_refine ag thread_id feedback st =
     (let state = get_state st thread_id
      in invoke ag (reject_input state feedback) thread_id st)"

text \<open>A language model that answers every prompt with the same text and whose
  checklist query is not answered.\<close>

definition fixed_backend :: "string \<Rightarrow> backend" where
  "fixed_backend reply =
     \<lparr>author_chain = (\<lambda>loan_type requirements. Inr reply),
      critic_chain = (\<lambda>descriptions requirements. Inr reply),
      check_call = (\<lambda>prompt. Raised)\<rparr>"


section \<open>The scoring rule as the specification words it\<close>



definition gap_weight :: "Gap \<Rightarrow> real" where
  "gap_weight gap =
     (if g_severity gap = ''critical'' then 0.10
      else if g_severity gap = ''high'' then 0.05
      else if g_severity gap = ''medium'' then 0.02
      else 0)"

definition sample_gap :: "string \<Rightarrow> string \<Rightarrow> Gap" where
  "sample_gap k sev =
     \<lparr>g_category = ''loan_product'', g_key = k, g_description = ''Item '' @ k,
      g_severity = sev, g_question = ''What about '' @ k @ ''?''\<rparr>"


section \<open>Auxiliary notions for the statements\<close>

text \<open>An entry of the trigger table matches a text when one of its triggers occurs in
  the lower-cased text.\<close>

definition matching :: "string \<Rightarrow> string \<times> string list \<Rightarrow> bool" where
  "matching text entry = any_trigger (snd entry) (lower text)"


text \<open>The entries of the module-level dictionary, and the objects that one call of
  \<open>get_checklist_for_loan_type\<close> appends to a store of \<open>n\<close> objects.\<close>

definition base_dict :: "(string \<times> nat) list" where
  "base_dict = [(''loan_product'', 0), (''borrower'', 1), (''property'', 2), (''compliance'', 3)]"

definition new_objects :: "string \<Rightarrow> nat \<Rightarrow> obj list" where
  "new_objects loan_type n =
     (if loan_type = ''FHA''
      then [DictObj (base_dict @ [(''fha_specific'', Suc n)]), ListObj fha_specific_items]
      else if loan_type = ''VA''
      then [DictObj (base_dict @ [(''va_specific'', Suc n)]), ListObj va_specific_items]
      else [DictObj base_dict])"







text \<open>The requirements that \<open>reject_and_refine\<close> builds when the thread has none; a
  store without threads; the two agents over a language model with a fixed reply; and a
  state in which two passes of the critic are done.\<close>

definition context_only :: "string \<Rightarrow> string" where
  "context_only feedback = [CHR 0x0A, CHR 0x0A] @ ''Additional context: '' @ feedback"

definition no_threads :: store where
  "no_threads = (\<lambda>thread_id. None)"

definition sample_agents :: agents where
  "sample_agents = reqguard_agents (fixed_backend ''Not specified in input'')"



section \<open>Confidence score\<close>

lemma deduct_sum: "deduct r gaps = r - sum_list (map gap_weight gaps)"
  by (induction gaps arbitrary: r) (auto simp: gap_weight_def)

lemma gap_weight_nonneg: "0 \<le> gap_weight g"
  by (simp add: gap_weight_def)






text \<open>
  C5. For every gap list and critique text the confidence score lies between 0 and 1,
  and a gap list with one more gap, put at any place of the list and of any severity,
  never has a higher score for the same critique text.
\<close>

theorem confidence_bounded_monotone:
  "0 \<le> calculate_confidence gaps critique_text
   \<and> calculate_confidence gaps critique_text \<le> 1
   \<and> calculate_confidence (xs @ g # ys) critique_text
       \<le> calculate_confidence (xs @ ys) critique_text"
proof -
  have "deduct 1 (xs @ g # ys) \<le> deduct 1 (xs @ ys)"
    using gap_weight_nonneg [of g] by (simp add: deduct_sum)
  then show ?thesis
    by (auto simp: calculate_confidence_def Let_def)
qed

theorem confidence_bounded_monotone_witness:
  "calculate_confidence [sample_gap ''a'' ''medium'', sample_gap ''b'' ''critical''] []
     \<le> calculate_confidence [sample_gap ''a'' ''medium''] []
   \<and> calculate_confidence [sample_gap ''a'' ''medium''] [] \<le> 1"
  using confidence_bounded_monotone
    [of "[sample_gap ''a'' ''medium'']" "[]" "[sample_gap ''a'' ''medium'']"
        "sample_gap ''b'' ''critical''" "[]"]
  by simp


section \<open>Outcome\<close>

text \<open>
  C8. \<open>determine_outcome\<close> gives "complete" for every score of at least 0.95, "partial"
  for every score of at least 0.70 and below 0.95, and "clarify" for every score below
  0.70; so 0.95 is complete, 0.949999 partial, 0.70 partial and 0.699999 clarify.
\<close>

theorem determine_outcome_thresholds:
  "(0.95 \<le> c \<longrightarrow> determine_outcome c = ''complete'')
   \<and> (0.70 \<le> c \<and> c < 0.95 \<longrightarrow> determine_outcome c = ''partial'')
   \<and> (c < 0.70 \<longrightarrow> determine_outcome c = ''clarify'')
   \<and> determine_outcome 0.95 = ''complete''
   \<and> determine_outcome 0.949999 = ''partial''
   \<and> determine_outcome 0.70 = ''partial''
   \<and> determine_outcome 0.699999 = ''clarify''"
  by (simp add: determine_outcome_def)

theorem determine_outcome_thresholds_witness:
  "(0.70::real) \<le> 0.8 \<and> (0.8::real) < 0.95 \<and> determine_outcome 0.8 = ''partial''
   \<and> (0.95::real) \<le> 1 \<and> determine_outcome 1 = ''complete''
   \<and> (0.1::real) < 0.70 \<and> determine_outcome 0.1 = ''clarify''"
  using determine_outcome_thresholds [of "0.8"] determine_outcome_thresholds [of 1]
    determine_outcome_thresholds [of "0.1"]
  by simp

section \<open>Loan type detection\<close>

lemma lower_char_idem: "lower_char (lower_char c) = lower_char c"
  by (auto simp: lower_char_def Let_def)

lemma lower_idem: "lower (lower s) = lower s"
  by (simp add: lower_def lower_char_idem)

lemma detect_loop_filter:
  "detect_loop table text_lower detected =
     detected @ map fst (filter (\<lambda>entry. any_trigger (snd entry) text_lower) table)"
  by (induction table text_lower detected rule: detect_loop.induct) auto

lemma matching_fun: "matching text = (\<lambda>entry. any_trigger (snd entry) (lower text))"
  by (rule ext) (simp add: matching_def)

lemma all_detected_filter:
  "all_detected (detect_loan_type text) = map fst (filter (matching text) LOAN_TYPE_TRIGGERS)"
  by (simp add: detect_loan_type_def Let_def detect_loop_filter matching_fun)

lemma detect_by_list:
  "detect_loan_type text =
     (let detected = map fst (filter (matching text) LOAN_TYPE_TRIGGERS)
      in \<lparr>primary_type = (case detected of [] \<Rightarrow> ''Conventional'' | d # _ \<Rightarrow> d),
          all_detected = detected,
          confidence = (if detected \<noteq> [] then 0.9 else 0.5)\<rparr>)"
  by (simp add: detect_loan_type_def Let_def detect_loop_filter matching_fun)

lemma first_match_split:
  assumes "filter P xs \<noteq> []"
  shows "\<exists>before after. xs = before @ hd (filter P xs) # after \<and> P (hd (filter P xs))
           \<and> (\<forall>x \<in> set before. \<not> P x)"
proof -
  from assms obtain y ys where f: "filter P xs = y # ys" by (cases "filter P xs") auto
  then obtain us vs where "xs = us @ y # vs" "\<forall>u\<in>set us. \<not> P u" "P y"
    unfolding filter_eq_Cons_iff by blast
  with f show ?thesis by auto
qed

text \<open>
  C6. \<open>detect_loan_type\<close> is case-insensitive: two texts with the same lower-casing
  have the same result, and a text and its lower-casing have the same result. When no entry of the trigger table matches the text, the result
  is "Conventional" with confidence 0.5 and nothing detected. When some entry matches,
  the confidence is 0.9, the detected list is not empty and holds the tag of every
  matching entry, and the primary type is the tag of the first matching entry in the
  order of the table.
\<close>

theorem detect_loan_type_cases:
  "(lower text = lower text' \<longrightarrow> detect_loan_type text = detect_loan_type text')
   \<and> detect_loan_type (lower text) = detect_loan_type text
   \<and> ((\<forall>entry \<in> set LOAN_TYPE_TRIGGERS. \<not> matching text entry) \<longrightarrow>
        detect_loan_type text =
          \<lparr>primary_type = ''Conventional'', all_detected = [], confidence = 0.5\<rparr>)
   \<and> ((\<exists>entry \<in> set LOAN_TYPE_TRIGGERS. matching text entry) \<longrightarrow>
        confidence (detect_loan_type text) = 0.9
        \<and> all_detected (detect_loan_type text) \<noteq> []
        \<and> (\<forall>entry \<in> set LOAN_TYPE_TRIGGERS.
              matching text entry \<longrightarrow> fst entry \<in> set (all_detected (detect_loan_type text)))
        \<and> (\<exists>before triggers after.
              LOAN_TYPE_TRIGGERS = before @ (primary_type (detect_loan_type text), triggers) # after
              \<and> matching text (primary_type (detect_loan_type text), triggers)
              \<and> (\<forall>entry \<in> set before. \<not> matching text entry)))"
proof (intro conjI impI)
  assume "lower text = lower text'"
  then show "detect_loan_type text = detect_loan_type text'"
    by (simp add: detect_loan_type_def)
next
  show "detect_loan_type (lower text) = detect_loan_type text"
    by (simp add: detect_loan_type_def lower_idem)
next
  assume "\<forall>entry \<in> set LOAN_TYPE_TRIGGERS. \<not> matching text entry"
  then have "filter (matching text) LOAN_TYPE_TRIGGERS = []"
    by (simp add: filter_empty_conv)
  then show "detect_loan_type text =
      \<lparr>primary_type = ''Conventional'', all_detected = [], confidence = 0.5\<rparr>"
    by (simp add: detect_by_list Let_def)
next
  assume ex: "\<exists>entry \<in> set LOAN_TYPE_TRIGGERS. matching text entry"
  then have ne: "filter (matching text) LOAN_TYPE_TRIGGERS \<noteq> []"
    by (simp add: filter_empty_conv)
  show "confidence (detect_loan_type text) = 0.9"
    using ne by (simp add: detect_by_list Let_def)
  show "all_detected (detect_loan_type text) \<noteq> []"
    using ne by (simp add: all_detected_filter)
  show "\<forall>entry \<in> set LOAN_TYPE_TRIGGERS.
          matching text entry \<longrightarrow> fst entry \<in> set (all_detected (detect_loan_type text))"
    by (auto simp: all_detected_filter)
  from first_match_split [OF ne] obtain before after where
    sp: "LOAN_TYPE_TRIGGERS = before @ hd (filter (matching text) LOAN_TYPE_TRIGGERS) # after"
    and m: "matching text (hd (filter (matching text) LOAN_TYPE_TRIGGERS))"
    and b: "\<forall>x \<in> set before. \<not> matching text x"
    by blast
  have p: "primary_type (detect_loan_type text) = fst (hd (filter (matching text) LOAN_TYPE_TRIGGERS))"
    using ne by (cases "filter (matching text) LOAN_TYPE_TRIGGERS") (auto simp: detect_by_list Let_def)
  obtain tg trs where h: "hd (filter (matching text) LOAN_TYPE_TRIGGERS) = (tg, trs)"
    by (cases "hd (filter (matching text) LOAN_TYPE_TRIGGERS)")
  show "\<exists>before triggers after.
          LOAN_TYPE_TRIGGERS = before @ (primary_type (detect_loan_type text), triggers) # after
          \<and> matching text (primary_type (detect_loan_type text), triggers)
          \<and> (\<forall>entry \<in> set before. \<not> matching text entry)"
    using sp m b p h by (metis fst_conv)
qed

theorem detect_loan_type_cases_witness:
  "list_ex (matching ''FHA loan for Veterans'') LOAN_TYPE_TRIGGERS
   \<and> confidence (detect_loan_type ''FHA loan for Veterans'') = 0.9
   \<and> all_detected (detect_loan_type ''FHA loan for Veterans'') \<noteq> []
   \<and> list_all (\<lambda>entry. \<not> matching ''Home Loan'' entry) LOAN_TYPE_TRIGGERS
   \<and> detect_loan_type ''Home Loan''
       = \<lparr>primary_type = ''Conventional'', all_detected = [], confidence = 0.5\<rparr>
   \<and> lower ''fha LOAN'' = lower ''FHA loan''
   \<and> detect_loan_type ''fha LOAN'' = detect_loan_type ''FHA loan''"
proof -
  have a: "list_ex (matching ''FHA loan for Veterans'') LOAN_TYPE_TRIGGERS"
    by code_simp
  have b: "list_all (\<lambda>entry. \<not> matching ''Home Loan'' entry) LOAN_TYPE_TRIGGERS"
    by code_simp
  have c: "lower ''fha LOAN'' = lower ''FHA loan''"
    by code_simp
  from a have "\<exists>entry \<in> set LOAN_TYPE_TRIGGERS. matching ''FHA loan for Veterans'' entry"
    by (simp add: list_ex_iff)
  with detect_loan_type_cases [of "''FHA loan for Veterans''" "''FHA loan for Veterans''"]
  have a': "confidence (detect_loan_type ''FHA loan for Veterans'') = 0.9
            \<and> all_detected (detect_loan_type ''FHA loan for Veterans'') \<noteq> []"
    by blast
  from b have "\<forall>entry \<in> set LOAN_TYPE_TRIGGERS. \<not> matching ''Home Loan'' entry"
    by (simp add: list_all_iff)
  with detect_loan_type_cases [of "''Home Loan''" "''Home Loan''"]
  have b': "detect_loan_type ''Home Loan''
       = \<lparr>primary_type = ''Conventional'', all_detected = [], confidence = 0.5\<rparr>"
    by blast
  from c detect_loan_type_cases [of "''fha LOAN''" "''FHA loan''"]
  have c': "detect_loan_type ''fha LOAN'' = detect_loan_type ''FHA loan''"
    by blast
  from a b c a' b' c' show ?thesis by blast
qed

text \<open>
  C10. Triggers are matched as plain substrings, without word boundaries: every text
  whose lower-casing contains "va" (as "approval" and "available" do) has "VA" among
  the detected loan types and gets confidence 0.9, not the default of a text without
  a match.
\<close>

theorem va_substring_detected:
  assumes "str_in ''va'' (lower text)"
  shows "''VA'' \<in> set (all_detected (detect_loan_type text))
         \<and> confidence (detect_loan_type text) = 0.9"
proof -
  have "matching text (''VA'', [''va'', ''veteran'', ''military'', ''certificate of eligibility'', ''coe'',
               ''funding fee''])"
    using assms by (simp add: matching_def any_trigger_def)
  moreover have "(''VA'', [''va'', ''veteran'', ''military'', ''certificate of eligibility'', ''coe'',
               ''funding fee'']) \<in> set LOAN_TYPE_TRIGGERS"
    by (simp add: LOAN_TYPE_TRIGGERS_def)
  ultimately have "(''VA'', [''va'', ''veteran'', ''military'', ''certificate of eligibility'', ''coe'',
               ''funding fee'']) \<in> set (filter (matching text) LOAN_TYPE_TRIGGERS)"
    by simp
  then have in_l: "''VA'' \<in> set (map fst (filter (matching text) LOAN_TYPE_TRIGGERS))"
    by force
  then have "map fst (filter (matching text) LOAN_TYPE_TRIGGERS) \<noteq> []"
    by (cases "map fst (filter (matching text) LOAN_TYPE_TRIGGERS)") simp_all
  with in_l show ?thesis unfolding detect_by_list Let_def by simp
qed

theorem va_substring_detected_witness:
  "str_in ''va'' (lower ''Approval is available'')
   \<and> ''VA'' \<in> set (all_detected (detect_loan_type ''Approval is available''))
   \<and> confidence (detect_loan_type ''Approval is available'') = 0.9"
proof -
  have h: "str_in ''va'' (lower ''Approval is available'')"
    by code_simp
  from va_substring_detected [OF h] h show ?thesis by blast
qed

section \<open>Question generation\<close>







lemma generate_questions_example: "generate_questions [sample_gap ''a'' ''low'', sample_gap ''b'' ''high'', sample_gap ''c'' ''weird'', sample_gap ''d'' ''high'', sample_gap ''e'' ''critical''] 3
  = map to_question [sample_gap ''e'' ''critical'', sample_gap ''b'' ''high'', sample_gap ''d'' ''high'']"
  by (simp add: generate_questions_def slice_to_def severity_rank_def sample_gap_def)

section \<open>The checklist table is copied, not changed\<close>

lemma module_heap_nth:
  assumes "prefix module_heap h"
  shows "5 \<le> length h" "h \<noteq> []" "h ! 0 = ListObj loan_product_items" "h ! 1 = ListObj borrower_items"
    "h ! 2 = ListObj property_items" "h ! 3 = ListObj compliance_items"
    "h ! 4 = DictObj base_dict"
proof -
  from assms obtain zs where h: "h = module_heap @ zs" by (auto simp: prefix_def)
  show "5 \<le> length h" by (simp add: h module_heap_def)
  show "h \<noteq> []" by (simp add: h module_heap_def)
  show "h ! 0 = ListObj loan_product_items" by (simp add: h module_heap_def)
  show "h ! 1 = ListObj borrower_items" by (simp add: h module_heap_def)
  show "h ! 2 = ListObj property_items" by (simp add: h module_heap_def)
  show "h ! 3 = ListObj compliance_items" by (simp add: h module_heap_def)
  show "h ! 4 = DictObj base_dict" by (simp add: h module_heap_def base_dict_def)
qed

lemma get_dict_CHECKLIST:
  "prefix module_heap h \<Longrightarrow> get_dict CHECKLIST h = Inr base_dict"
  using module_heap_nth(1,7) [of h] by (simp add: get_dict_def CHECKLIST_def)

lemma read_base_dict:
  "prefix module_heap h \<Longrightarrow> read_entries base_dict h = Inr base_categories"
  using module_heap_nth [of h]
  by (simp add: base_dict_def base_categories_def get_list_def)

lemma read_entries_append:
  "read_entries d h = Inr es \<Longrightarrow> read_entries d' h = Inr es'
     \<Longrightarrow> read_entries (d @ d') h = Inr (es @ es')"
  by (induction d h arbitrary: es rule: read_entries.induct) (auto split: sum.splits)

lemma get_checklist_result:
  assumes "prefix module_heap h"
  shows "get_checklist_for_loan_type loan_type h
           = Inr (length h, h @ new_objects loan_type (length h))"
proof -
  have d: "dict_copy CHECKLIST h = Inr (length h, h @ [DictObj base_dict])"
    using get_dict_CHECKLIST [OF assms] by (simp add: dict_copy_def alloc_def)
  have upd: "\<And>k v. AList.update k v base_dict = base_dict @ [(k, v)]
               \<or> k \<in> fst ` set base_dict"
    by (simp add: base_dict_def)
  show ?thesis
    unfolding get_checklist_for_loan_type_def d
    by (simp add: alloc_def dict_setitem_def get_dict_def nth_append new_objects_def
          base_dict_def list_update_append)
qed

lemma dict_items_CHECKLIST:
  "prefix module_heap h \<Longrightarrow> dict_items CHECKLIST h = Inr base_categories"
  by (simp add: dict_items_def get_dict_CHECKLIST read_base_dict)

lemma dict_items_result:
  assumes "prefix module_heap h"
  shows "dict_items (length h) (h @ new_objects loan_type (length h))
           = Inr (base_categories @ extension loan_type)"
proof -
  let ?h' = "h @ new_objects loan_type (length h)"
  have p: "prefix module_heap ?h'" using assms by (simp add: prefix_prefix)
  have b: "read_entries base_dict ?h' = Inr base_categories" by (rule read_base_dict [OF p])
  show ?thesis
  proof (cases "loan_type = ''FHA''")
    case True
    have "read_entries [(''fha_specific'', Suc (length h))] ?h' = Inr [(''fha_specific'', fha_specific_items)]"
      using True by (simp add: new_objects_def get_list_def nth_append)
    from read_entries_append [OF b this] True show ?thesis
      by (simp add: dict_items_def get_dict_def new_objects_def extension_def)
  next
    case False
    show ?thesis
    proof (cases "loan_type = ''VA''")
      case True
      have "read_entries [(''va_specific'', Suc (length h))] ?h' = Inr [(''va_specific'', va_specific_items)]"
        using True by (simp add: new_objects_def get_list_def nth_append)
      from read_entries_append [OF b this] True show ?thesis
        by (simp add: dict_items_def get_dict_def new_objects_def extension_def)
    next
      case nva: False
      from b False nva show ?thesis
        by (simp add: dict_items_def get_dict_def new_objects_def extension_def)
    qed
  qed
qed

lemma calls_extend:
  "prefix module_heap h \<Longrightarrow> \<exists>h'. calls ts h = Inr h' \<and> prefix h h'"
proof (induction ts arbitrary: h)
  case Nil
  then show ?case by simp
next
  case (Cons t ts)
  let ?h1 = "h @ new_objects t (length h)"
  have "prefix module_heap ?h1" using Cons.prems by (simp add: prefix_prefix)
  from Cons.IH [OF this] obtain h' where "calls ts ?h1 = Inr h'" "prefix ?h1 h'" by blast
  then show ?case
    using get_checklist_result [OF Cons.prems, of t] by (auto dest: append_prefixD)
qed

text \<open>
  C7. After any sequence of earlier calls on the store of the loaded module, a call of
  \<open>get_checklist_for_loan_type\<close> returns a new dictionary and leaves every object that
  existed before the call as it was, the shared \<open>CHECKLIST\<close> table among them. The
  categories of the result are the base categories followed by the extension of the
  loan type: for "FHA" they contain "fha_specific", for any other tag they do not, and
  for a tag other than "FHA" and "VA" they are exactly the base categories.
\<close>

theorem checklist_copy_on_read:
  "\<exists>h r h' entries.
      calls earlier module_heap = Inr h
    \<and> get_checklist_for_loan_type loan_type h = Inr (r, h')
    \<and> prefix module_heap h \<and> prefix h h' \<and> r \<notin> {0..<length h}
    \<and> dict_items CHECKLIST h = Inr base_categories
    \<and> dict_items CHECKLIST h' = Inr base_categories
    \<and> dict_items r h' = Inr entries
    \<and> entries = base_categories @ extension loan_type
    \<and> (loan_type = ''FHA'' \<longrightarrow> map_of entries ''fha_specific'' = Some fha_specific_items)
    \<and> (loan_type \<noteq> ''FHA'' \<longrightarrow> map_of entries ''fha_specific'' = None)
    \<and> (loan_type \<noteq> ''FHA'' \<and> loan_type \<noteq> ''VA'' \<longrightarrow> entries = base_categories)"
proof -
  from calls_extend [of module_heap earlier] obtain h where
    c: "calls earlier module_heap = Inr h" and p: "prefix module_heap h" by auto
  let ?h' = "h @ new_objects loan_type (length h)"
  have p': "prefix module_heap ?h'" using p by (simp add: prefix_prefix)
  have m: "map_of (base_categories @ extension ''FHA'') ''fha_specific''
             = Some fha_specific_items"
    by (simp add: base_categories_def extension_def)
  have m': "loan_type \<noteq> ''FHA'' \<longrightarrow>
              map_of (base_categories @ extension loan_type) ''fha_specific'' = None"
    by (simp add: base_categories_def extension_def)
  have e: "loan_type \<noteq> ''FHA'' \<and> loan_type \<noteq> ''VA'' \<longrightarrow> extension loan_type = []"
    by (simp add: extension_def)
  show ?thesis
    apply (rule exI [of _ h], rule exI [of _ "length h"], rule exI [of _ ?h'])
    apply (rule exI [of _ "base_categories @ extension loan_type"])
    using c p get_checklist_result [OF p, of loan_type] dict_items_CHECKLIST [OF p]
      dict_items_CHECKLIST [OF p'] dict_items_result [OF p, of loan_type] m m' e
    by simp
qed

theorem checklist_copy_on_read_witness:
  "\<exists>h r h' entries.
      calls [''FHA'', ''VA''] module_heap = Inr h
    \<and> get_checklist_for_loan_type ''Conventional'' h = Inr (r, h')
    \<and> dict_items r h' = Inr entries
    \<and> ''Conventional'' \<noteq> ''FHA'' \<and> map_of entries ''fha_specific'' = None
    \<and> entries = base_categories"
proof -
  have ne: "''Conventional'' \<noteq> ''FHA''" "''Conventional'' \<noteq> ''VA''" by simp_all
  from checklist_copy_on_read [of "[''FHA'', ''VA'']" "''Conventional''"]
  obtain h r h' entries where
    "calls [''FHA'', ''VA''] module_heap = Inr h"
    "get_checklist_for_loan_type ''Conventional'' h = Inr (r, h')"
    "dict_items r h' = Inr entries"
    "''Conventional'' \<noteq> ''FHA'' \<longrightarrow> map_of entries ''fha_specific'' = None"
    "''Conventional'' \<noteq> ''FHA'' \<and> ''Conventional'' \<noteq> ''VA'' \<longrightarrow> entries = base_categories"
    by blast
  with ne show ?thesis by blast
qed

section \<open>Gap checking when the language model fails\<close>







lemma check_against_checklist_total:
  "check_against_checklist llm author_out module_heap =
     Inr (check_categories llm (ao_structured_requirements author_out)
            (base_categories @ extension (primary_type (ao_loan_classification author_out))) [],
          module_heap @ new_objects (primary_type (ao_loan_classification author_out))
                          (length module_heap))"
proof -
  have p: "prefix module_heap module_heap" by simp
  show ?thesis
    unfolding check_against_checklist_def Let_def
    by (simp add: get_checklist_result [OF p] dict_items_result [OF p])
qed





section \<open>The workflow\<close>

lemma override_None [simp]: "override old None = old"
  by (simp add: override_def)

lemma override_Some [simp]: "override old (Some v) = Some v"
  by (simp add: override_def)

lemma merge_no_keys [simp]: "merge s no_keys = s"
  by (simp add: merge_def no_keys_def)

lemma should_continue_order:
  "should_continue s =
     (if is_approved s then ''end''
      else if 3 \<le> get_iteration s then ''escalate''
      else if outcome s = Some ''complete'' then ''end''
      else ''gate'')"
  by (auto simp: should_continue_def Let_def split: option.splits)


lemma step_Critic:
  "step ag (Critic, s) = Inr (n', s') \<Longrightarrow>
     get_iteration s' = get_iteration s + 1 \<and> approved s' = approved s
     \<and> map_of critic_edges (should_continue s') = Some n'"
  by (auto simp: critic_node_def merge_def no_keys_def Let_def follow_def get_iteration_def
           split: sum.splits option.splits)


lemma critic_target:
  "map_of critic_edges (should_continue s) = Some n \<Longrightarrow>
     (n = Gate \<and> get_iteration s < 3 \<and> \<not> is_approved s) \<or> n = END"
  by (auto simp: should_continue_order critic_edges_def split: if_splits)

lemma decide_iteration [simp]: "get_iteration (decide d s) = get_iteration s"
  by (cases d)
     (simp_all add: get_iteration_def merge_def approve_input_def reject_input_def
        no_keys_def Let_def)






lemma override_left_None [simp]: "override None new = new"
  by (cases new) (simp_all add: override_def)

lemma merge_left_no_keys [simp]: "merge no_keys u = u"
  by (cases u) (simp add: merge_def no_keys_def)

lemma author_step_ok:
  "raw_requirements s = Some r \<Longrightarrow> ag_extract ag r = Inr ao \<Longrightarrow>
     step ag (Author, s) = Inr (Critic, s\<lparr>author_output := Some ao\<rparr>)"
  by (cases s) (simp add: author_node_def merge_def no_keys_def)

lemma critic_step_ok:
  assumes "author_output s = Some ao" "ag_check_against_checklist ag ao = Inr gaps"
    "ag_critique ag ao gaps = Inr crit"
  shows "\<exists>n' s'. step ag (Critic, s) = Inr (n', s')
           \<and> raw_requirements s' = raw_requirements s \<and> author_output s' = Some ao
           \<and> critic_output s' = Some crit"
proof -
  have lab: "\<And>t. \<exists>n. map_of critic_edges (should_continue t) = Some n"
    by (simp add: should_continue_order critic_edges_def)
  let ?s' = "merge s (no_keys\<lparr>critic_output := Some crit,
       st_confidence := Some (calculate_confidence gaps (co_llm_critique crit)),
       outcome := Some (determine_outcome (calculate_confidence gaps (co_llm_critique crit))),
       questions := Some (generate_questions_default gaps),
       iteration := Some (get_iteration s + 1)\<rparr>)"
  from lab [of ?s'] obtain n where n: "map_of critic_edges (should_continue ?s') = Some n" ..
  have "step ag (Critic, s) = Inr (n, ?s')"
    using assms n by (simp add: critic_node_def Let_def follow_def)
  moreover have "raw_requirements ?s' = raw_requirements s" "author_output ?s' = Some ao"
    "critic_output ?s' = Some crit"
    using assms(1) by (simp_all add: merge_def no_keys_def)
  ultimately show ?thesis by blast
qed

lemma run_two_steps:
  assumes "step ag (Author, s) = Inr (Critic, s1)" "step ag (Critic, s1) = Inr (n', s2)"
  shows "run ag (Author, s) = Inr (n', s2)"
proof -
  from step_Critic [OF assms(2)] critic_target [of s2 n'] have stop: "n' = Gate \<or> n' = END"
    by blast
  have "run ag (Critic, s1) = Inr (n', s2)"
    using assms(2) stop by (subst run.simps) simp
  then show ?thesis
    using assms(1) by (subst run.simps) simp
qed

lemma invoke_unseen:
  "st thread_id = None \<Longrightarrow>
     invoke ag input thread_id st =
       (case run ag (Author, input) of Inl e \<Rightarrow> Inl e
        | Inr (n', s') \<Rightarrow> Inr (s', st(thread_id \<mapsto> (n', s'))))"
  by (simp add: invoke_def)

lemma run_author_missing:
  "raw_requirements s = None \<Longrightarrow> run ag (Author, s) = Inl (KeyError ''raw_requirements'')"
  by (subst run.simps) (simp add: author_node_def)

lemma reject_unseen_input:
  "st thread_id = None \<Longrightarrow>
     reject_input (get_state st thread_id) feedback =
       no_keys\<lparr>raw_requirements := Some (context_only feedback), approved := Some False\<rparr>"
  by (simp add: reject_input_def get_state_def no_keys_def context_only_def)

lemma reject_unseen_runs:
  assumes "st thread_id = None"
    and "ag_extract ag (context_only feedback) = Inr ao"
    and "ag_check_against_checklist ag ao = Inr gaps"
    and "ag_critique ag ao gaps = Inr crit"
  shows "\<exists>result st'. reject_and_refine ag thread_id feedback st = Inr (result, st')
           \<and> st' thread_id \<noteq> None
           \<and> raw_requirements result = Some (context_only feedback)
           \<and> author_output result = Some ao \<and> critic_output result = Some crit"
proof -
  let ?input = "no_keys\<lparr>raw_requirements := Some (context_only feedback), approved := Some False\<rparr>"
  have r: "raw_requirements ?input = Some (context_only feedback)" by simp
  from author_step_ok [OF r assms(2)]
  have a: "step ag (Author, ?input) = Inr (Critic, ?input\<lparr>author_output := Some ao\<rparr>)" .
  have "author_output (?input\<lparr>author_output := Some ao\<rparr>) = Some ao" by simp
  from critic_step_ok [OF this assms(3,4)] obtain n' s' where
    c: "step ag (Critic, ?input\<lparr>author_output := Some ao\<rparr>) = Inr (n', s')"
    and k: "raw_requirements s' = Some (context_only feedback)" "author_output s' = Some ao"
      "critic_output s' = Some crit"
    by auto
  from run_two_steps [OF a c] have "run ag (Author, ?input) = Inr (n', s')" .
  then have "reject_and_refine ag thread_id feedback st = Inr (s', st(thread_id \<mapsto> (n', s')))"
    using assms(1)
    by (simp add: reject_and_refine_def Let_def reject_unseen_input invoke_unseen)
  with k show ?thesis by simp
qed

lemma sample_agents_answers:
  "ag_extract sample_agents r
     = Inr \<lparr>ao_loan_classification = detect_loan_type r,
            ao_structured_requirements = ''Not specified in input'', ao_raw_input = r\<rparr>"
  "\<exists>gaps. ag_check_against_checklist sample_agents ao = Inr gaps"
  "ag_critique sample_agents ao gaps
     = Inr \<lparr>co_checklist_gaps = gaps, co_llm_critique = ''Not specified in input'',
            co_loan_type = primary_type (ao_loan_classification ao)\<rparr>"
  by (simp_all add: sample_agents_def reqguard_agents_def fixed_backend_def
        ReqGuardAuthor_extract_def critique_def check_against_checklist_total)




text \<open>
  C4 as stated fails: on a store without threads, \<open>reject_and_refine\<close> with an unknown
  thread identifier does not fail, and the store holds a thread under that identifier
  afterwards.
\<close>

theorem reject_unknown_thread_runs:
  "no_threads ''no-such-thread'' = None
   \<and> \<not> isl (reject_and_refine sample_agents ''no-such-thread'' ''add the loan term'' no_threads)
   \<and> snd (projr (reject_and_refine sample_agents ''no-such-thread'' ''add the loan term''
                  no_threads)) ''no-such-thread'' \<noteq> None"
proof -
  from sample_agents_answers(2) obtain gaps where
    g: "ag_check_against_checklist sample_agents
          \<lparr>ao_loan_classification = detect_loan_type (context_only ''add the loan term''),
           ao_structured_requirements = ''Not specified in input'',
           ao_raw_input = context_only ''add the loan term''\<rparr> = Inr gaps"
    by blast
  have n: "no_threads ''no-such-thread'' = None" by (simp add: no_threads_def)
  from reject_unseen_runs [of no_threads "''no-such-thread''" sample_agents
      "''add the loan term''", OF n sample_agents_answers(1) g sample_agents_answers(3)]
  obtain result st' where
    "reject_and_refine sample_agents ''no-such-thread'' ''add the loan term'' no_threads
       = Inr (result, st')" "st' ''no-such-thread'' \<noteq> None"
    by blast
  with n show ?thesis by simp
qed

text \<open>
  C4, amended. Neither function checks that the thread exists. For a thread identifier
  without persisted state, \<open>approve_and_continue\<close> fails in the author node with the
  key error for the missing "raw_requirements"; \<open>reject_and_refine\<close> takes the missing
  requirements as the empty text, invokes the workflow on the feedback alone, and when
  the agents answer it returns normally with a thread persisted under the identifier.
\<close>

theorem resume_unknown_thread:
  assumes "st thread_id = None"
  shows "approve_and_continue ag thread_id feedback st = Inl (KeyError ''raw_requirements'')
    \<and> reject_and_refine ag thread_id feedback st
        = invoke ag (no_keys\<lparr>raw_requirements := Some (context_only feedback),
                              approved := Some False\<rparr>) thread_id st
    \<and> (ag_extract ag (context_only feedback) = Inr ao
        \<and> ag_check_against_checklist ag ao = Inr gaps
        \<and> ag_critique ag ao gaps = Inr crit \<longrightarrow>
          (\<exists>result st'. reject_and_refine ag thread_id feedback st = Inr (result, st')
             \<and> st' thread_id \<noteq> None
             \<and> raw_requirements result = Some (context_only feedback)
             \<and> author_output result = Some ao \<and> critic_output result = Some crit))"
proof (intro conjI impI)
  have "raw_requirements (approve_input feedback) = None"
    by (simp add: approve_input_def no_keys_def)
  from run_author_missing [OF this]
  show "approve_and_continue ag thread_id feedback st = Inl (KeyError ''raw_requirements'')"
    using assms by (simp add: approve_and_continue_def invoke_unseen)
  show "reject_and_refine ag thread_id feedback st
        = invoke ag (no_keys\<lparr>raw_requirements := Some (context_only feedback),
                              approved := Some False\<rparr>) thread_id st"
    using assms by (simp add: reject_and_refine_def Let_def reject_unseen_input)
next
  assume "ag_extract ag (context_only feedback) = Inr ao
        \<and> ag_check_against_checklist ag ao = Inr gaps
        \<and> ag_critique ag ao gaps = Inr crit"
  then show "\<exists>result st'. reject_and_refine ag thread_id feedback st = Inr (result, st')
             \<and> st' thread_id \<noteq> None
             \<and> raw_requirements result = Some (context_only feedback)
             \<and> author_output result = Some ao \<and> critic_output result = Some crit"
    using reject_unseen_runs [of st thread_id ag feedback ao gaps crit] assms by blast
qed

theorem resume_unknown_thread_witness:
  "no_threads ''no-such-thread'' = None
   \<and> approve_and_continue sample_agents ''no-such-thread'' ''fine'' no_threads
       = Inl (KeyError ''raw_requirements'')
   \<and> (\<exists>result st'. reject_and_refine sample_agents ''no-such-thread'' ''add the loan term''
          no_threads = Inr (result, st')
        \<and> st' ''no-such-thread'' \<noteq> None
        \<and> raw_requirements result = Some (context_only ''add the loan term''))"
proof -
  have n: "no_threads ''no-such-thread'' = None" by (simp add: no_threads_def)
  from sample_agents_answers(2) obtain gaps where
    g: "ag_check_against_checklist sample_agents
          \<lparr>ao_loan_classification = detect_loan_type (context_only ''add the loan term''),
           ao_structured_requirements = ''Not specified in input'',
           ao_raw_input = context_only ''add the loan term''\<rparr> = Inr gaps"
    by blast
  from resume_unknown_thread [of no_threads "''no-such-thread''" sample_agents "''fine''", OF n]
  have a: "approve_and_continue sample_agents ''no-such-thread'' ''fine'' no_threads
       = Inl (KeyError ''raw_requirements'')"
    by blast
  from resume_unknown_thread [of no_threads "''no-such-thread''" sample_agents
      "''add the loan term''", OF n]
    sample_agents_answers(1) g sample_agents_answers(3)
  have "\<exists>result st'. reject_and_refine sample_agents ''no-such-thread'' ''add the loan term''
          no_threads = Inr (result, st')
        \<and> st' ''no-such-thread'' \<noteq> None
        \<and> raw_requirements result = Some (context_only ''add the loan term'')"
    by blast
  with n a show ?thesis by blast
qed

end
